theory Spec2Isabelle
  imports Main "HOL-Library.Word"
begin

unbundle bit_operations_syntax

section \<open>Open-mode flag translation (qfcntl.c)\<close>

text \<open>
  The foreign open-mode constants of \<^verbatim>\<open>qfcntl.c\<close>, written in octal there.
  \<^verbatim>\<open>mode_t\<close> and \<^verbatim>\<open>int\<close> are 32 bits wide.
\<close>

definition QNX_O_RDONLY :: "32 word" where "QNX_O_RDONLY = 0"
definition QNX_O_WRONLY :: "32 word" where "QNX_O_WRONLY = 1"
definition QNX_O_RDWR :: "32 word" where "QNX_O_RDWR = 2"
definition QNX_O_NONBLOCK :: "32 word" where "QNX_O_NONBLOCK = 128"
definition QNX_O_APPEND :: "32 word" where "QNX_O_APPEND = 8"
definition QNX_O_DSYNC :: "32 word" where "QNX_O_DSYNC = 16"
definition QNX_O_RSYNC :: "32 word" where "QNX_O_RSYNC = 64"
definition QNX_O_SYNC :: "32 word" where "QNX_O_SYNC = 32"
definition QNX_O_CREAT :: "32 word" where "QNX_O_CREAT = 256"
definition QNX_O_TRUNC :: "32 word" where "QNX_O_TRUNC = 512"
definition QNX_O_EXCL :: "32 word" where "QNX_O_EXCL = 1024"
definition QNX_O_NOCTTY :: "32 word" where "QNX_O_NOCTTY = 2048"

text \<open>
  The host constants \<^verbatim>\<open>O_RDONLY\<close>, ... come from the host's \<^verbatim>\<open>fcntl.h\<close>, which is
  not part of the shim; they are a parameter of the translation.
\<close>

record host_oflags =
  O_RDONLY :: "32 word"
  O_WRONLY :: "32 word"
  O_RDWR :: "32 word"
  O_NONBLOCK :: "32 word"
  O_APPEND :: "32 word"
  O_DSYNC :: "32 word"
  O_RSYNC :: "32 word"
  O_SYNC :: "32 word"
  O_CREAT :: "32 word"
  O_TRUNC :: "32 word"
  O_EXCL :: "32 word"
  O_NOCTTY :: "32 word"

text \<open>The values of these constants on Linux (generic layout, as on x86-64 and AArch64).\<close>

definition linux_oflags :: host_oflags where
  "linux_oflags = \<lparr> O_RDONLY = 0, O_WRONLY = 1, O_RDWR = 2, O_NONBLOCK = 2048,
     O_APPEND = 1024, O_DSYNC = 4096, O_RSYNC = 1052672, O_SYNC = 1052672,
     O_CREAT = 64, O_TRUNC = 512, O_EXCL = 128, O_NOCTTY = 256 \<rparr>"

text \<open>
  The macro \<^verbatim>\<open>CONV_MODE(n)\<close>: \<^verbatim>\<open>if (f & QNX_O_n) ret |= O_n\<close>, as a step on the
  accumulator \<^verbatim>\<open>ret\<close>.
\<close>

definition CONV_MODE :: "32 word \<Rightarrow> 32 word \<Rightarrow> 32 word \<Rightarrow> 32 word \<Rightarrow> 32 word" where
  "CONV_MODE f qbit hbit ret = (if f AND qbit \<noteq> 0 then ret OR hbit else ret)"

text \<open>
  \<^verbatim>\<open>qnx_flag_to_linux\<close>: the fourteen macro calls in the order of the source (the
  first two are written twice there).
\<close>

definition qnx_flag_to_linux :: "host_oflags \<Rightarrow> 32 word \<Rightarrow> 32 word" where
  "qnx_flag_to_linux h f =
    (let ret = 0;
         ret = CONV_MODE f QNX_O_RDONLY (O_RDONLY h) ret;
         ret = CONV_MODE f QNX_O_WRONLY (O_WRONLY h) ret;
         ret = CONV_MODE f QNX_O_RDONLY (O_RDONLY h) ret;
         ret = CONV_MODE f QNX_O_WRONLY (O_WRONLY h) ret;
         ret = CONV_MODE f QNX_O_RDWR (O_RDWR h) ret;
         ret = CONV_MODE f QNX_O_NONBLOCK (O_NONBLOCK h) ret;
         ret = CONV_MODE f QNX_O_APPEND (O_APPEND h) ret;
         ret = CONV_MODE f QNX_O_DSYNC (O_DSYNC h) ret;
         ret = CONV_MODE f QNX_O_RSYNC (O_RSYNC h) ret;
         ret = CONV_MODE f QNX_O_SYNC (O_SYNC h) ret;
         ret = CONV_MODE f QNX_O_CREAT (O_CREAT h) ret;
         ret = CONV_MODE f QNX_O_TRUNC (O_TRUNC h) ret;
         ret = CONV_MODE f QNX_O_EXCL (O_EXCL h) ret;
         ret = CONV_MODE f QNX_O_NOCTTY (O_NOCTTY h) ret
     in ret)"

text \<open>
  The translation as the specification words it: a fixed, ordered list of
  (foreign bit, host bit) pairs; for each pair whose foreign bit is set in the input, the
  host bit is set in the accumulator.
\<close>

definition flag_table :: "host_oflags \<Rightarrow> (32 word \<times> 32 word) list" where
  "flag_table h =
    [(QNX_O_RDONLY, O_RDONLY h), (QNX_O_WRONLY, O_WRONLY h), (QNX_O_RDWR, O_RDWR h),
     (QNX_O_NONBLOCK, O_NONBLOCK h), (QNX_O_APPEND, O_APPEND h), (QNX_O_DSYNC, O_DSYNC h),
     (QNX_O_RSYNC, O_RSYNC h), (QNX_O_SYNC, O_SYNC h), (QNX_O_CREAT, O_CREAT h),
     (QNX_O_TRUNC, O_TRUNC h), (QNX_O_EXCL, O_EXCL h), (QNX_O_NOCTTY, O_NOCTTY h)]"

definition translate_by_table :: "(32 word \<times> 32 word) list \<Rightarrow> 32 word \<Rightarrow> 32 word" where
  "translate_by_table tbl f =
     foldl (\<lambda>acc (fb, hb). if f AND fb \<noteq> 0 then acc OR hb else acc) 0 tbl"

text \<open>The foreign bits that have an entry in the table: octal 7773.\<close>

definition qnx_known_bits :: "32 word" where
  "qnx_known_bits = 4091"

section \<open>File-status transcoding (qstat.c)\<close>

text \<open>
  \<^verbatim>\<open>struct timespec\<close> is the host's own type on both sides: the foreign record embeds
  it unchanged. \<^verbatim>\<open>time_t\<close> and \<^verbatim>\<open>long\<close> are 64 bits wide.
\<close>

record timespec =
  tv_sec :: "64 word"
  tv_nsec :: "64 word"

text \<open>
  Modelled from the spec: the host's \<^verbatim>\<open>struct stat\<close> is declared in the host's
  \<^verbatim>\<open>sys/stat.h\<close>, outside the shim. The specification only says that host fields may be
  wider than the foreign ones (``a 64-bit host time value into a 32-bit foreign time
  field''); the widths below are those of the host C library on a 64-bit Linux target:
  \<^verbatim>\<open>dev_t\<close>, \<^verbatim>\<open>ino_t\<close>, \<^verbatim>\<open>nlink_t\<close>, \<^verbatim>\<open>off_t\<close>, \<^verbatim>\<open>blksize_t\<close>, \<^verbatim>\<open>blkcnt_t\<close> 64 bits,
  \<^verbatim>\<open>mode_t\<close>, \<^verbatim>\<open>uid_t\<close>, \<^verbatim>\<open>gid_t\<close> 32 bits. The fields carry the prefix \<open>l_\<close> to
  keep them apart from the foreign ones of the same name.
\<close>

record linux_stat =
  l_st_dev :: "64 word"
  l_st_ino :: "64 word"
  l_st_nlink :: "64 word"
  l_st_mode :: "32 word"
  l_st_uid :: "32 word"
  l_st_gid :: "32 word"
  l_st_rdev :: "64 word"
  l_st_size :: "64 word"
  l_st_blksize :: "64 word"
  l_st_blocks :: "64 word"
  l_st_atim :: timespec
  l_st_mtim :: timespec
  l_st_ctim :: timespec

text \<open>
  \<^verbatim>\<open>struct qnx_stat\<close>, field by field, with the widths of the \<^verbatim>\<open>qnx_*_t\<close> typedefs.
  The fields \<^verbatim>\<open>__old_st_mtime\<close>, ... are written without the leading underscores.
\<close>

record qnx_stat =
  st_ino :: "64 word"
  st_size :: "64 word"
  st_dev :: "32 word"
  st_rdev :: "32 word"
  st_uid :: "32 word"
  st_gid :: "32 word"
  old_st_mtime :: "32 word"
  old_st_atime :: "32 word"
  old_st_ctime :: "32 word"
  st_mode :: "32 word"
  st_nlink :: "32 word"
  st_blocksize :: "32 word"
  st_nblocks :: "32 word"
  st_blksize :: "32 word"
  st_blocks :: "64 word"
  st_mtim :: timespec
  st_atim :: timespec
  st_ctim :: timespec

text \<open>
  \<^verbatim>\<open>linux_stat_to_qnx\<close> assigns the fields of \<^verbatim>\<open>*qstat\<close> one by one; the model takes the
  prior content of \<^verbatim>\<open>*qstat\<close> and returns the new one. A C assignment to a narrower
  unsigned field keeps the low bits (\<open>ucast\<close>).
\<close>

definition linux_stat_to_qnx :: "linux_stat \<Rightarrow> qnx_stat \<Rightarrow> qnx_stat" where
  "linux_stat_to_qnx lstat qstat =
    (let qstat = qstat\<lparr>st_ino := l_st_ino lstat\<rparr>;
         qstat = qstat\<lparr>st_size := l_st_size lstat\<rparr>;
         qstat = qstat\<lparr>st_dev := ucast (l_st_dev lstat)\<rparr>;
         qstat = qstat\<lparr>st_rdev := ucast (l_st_rdev lstat)\<rparr>;
         qstat = qstat\<lparr>st_uid := l_st_uid lstat\<rparr>;
         qstat = qstat\<lparr>st_gid := l_st_gid lstat\<rparr>;
         qstat = qstat\<lparr>old_st_atime := ucast (tv_sec (l_st_atim lstat))\<rparr>;
         qstat = qstat\<lparr>old_st_mtime := ucast (tv_sec (l_st_mtim lstat))\<rparr>;
         qstat = qstat\<lparr>old_st_ctime := ucast (tv_sec (l_st_ctim lstat))\<rparr>;
         qstat = qstat\<lparr>st_mode := l_st_mode lstat\<rparr>;
         qstat = qstat\<lparr>st_nlink := ucast (l_st_nlink lstat)\<rparr>;
         qstat = qstat\<lparr>st_blocksize := ucast (l_st_blksize lstat)\<rparr>;
         qstat = qstat\<lparr>st_nblocks := ucast (l_st_blocks lstat)\<rparr>;
         qstat = qstat\<lparr>st_blksize := ucast (l_st_blksize lstat)\<rparr>;
         qstat = qstat\<lparr>st_blocks := l_st_blocks lstat\<rparr>;
         qstat = qstat\<lparr>st_mtim := l_st_mtim lstat\<rparr>;
         qstat = qstat\<lparr>st_atim := l_st_atim lstat\<rparr>;
         qstat = qstat\<lparr>st_ctim := l_st_ctim lstat\<rparr>
     in qstat)"

text \<open>
  The four entry points \<^verbatim>\<open>_qnx_stat\<close>, \<^verbatim>\<open>_qnx_lstat\<close>, \<^verbatim>\<open>_qnx_fstat\<close> and
  \<^verbatim>\<open>_qnx_fstatat\<close> (an identifier cannot start with an underscore here, hence the
  prefix \<open>entry\<close>). The host call is a parameter: it yields its return value and the
  content it left in \<^verbatim>\<open>local\<close>. The caller's buffer is \<open>None\<close> for a null pointer and
  \<open>Some\<close> of its content otherwise; the result is the return value and the buffer after
  the call.
\<close>

definition entry_qnx_stat ::
  "(string \<Rightarrow> 32 word \<times> linux_stat) \<Rightarrow> string \<Rightarrow> qnx_stat option \<Rightarrow> 32 word \<times> qnx_stat option" where
  "entry_qnx_stat host_stat path buf =
    (let (ret, local) = host_stat path
     in (ret, if ret = 0 \<and> buf \<noteq> None then map_option (linux_stat_to_qnx local) buf else buf))"

definition entry_qnx_lstat ::
  "(string \<Rightarrow> 32 word \<times> linux_stat) \<Rightarrow> string \<Rightarrow> qnx_stat option \<Rightarrow> 32 word \<times> qnx_stat option" where
  "entry_qnx_lstat host_lstat path buf =
    (let (ret, local) = host_lstat path
     in (ret, if ret = 0 \<and> buf \<noteq> None then map_option (linux_stat_to_qnx local) buf else buf))"

definition entry_qnx_fstat ::
  "(32 word \<Rightarrow> 32 word \<times> linux_stat) \<Rightarrow> 32 word \<Rightarrow> qnx_stat option \<Rightarrow> 32 word \<times> qnx_stat option" where
  "entry_qnx_fstat host_fstat fd buf =
    (let (ret, local) = host_fstat fd
     in (ret, if ret = 0 \<and> buf \<noteq> None then map_option (linux_stat_to_qnx local) buf else buf))"

definition entry_qnx_fstatat ::
  "(32 word \<Rightarrow> string \<Rightarrow> 32 word \<Rightarrow> 32 word \<times> linux_stat) \<Rightarrow>
     32 word \<Rightarrow> string \<Rightarrow> qnx_stat option \<Rightarrow> 32 word \<Rightarrow> 32 word \<times> qnx_stat option" where
  "entry_qnx_fstatat host_fstatat fd path buf flags =
    (let (ret, local) = host_fstatat fd path flags
     in (ret, if ret = 0 \<and> buf \<noteq> None then map_option (linux_stat_to_qnx local) buf else buf))"

text \<open>Two concrete records for the examples below.\<close>

definition zero_timespec :: timespec where
  "zero_timespec = \<lparr> tv_sec = 0, tv_nsec = 0 \<rparr>"

definition stat_wide_dev :: linux_stat where
  "stat_wide_dev = \<lparr> l_st_dev = 4294967301, l_st_ino = 7, l_st_nlink = 1, l_st_mode = 33188,
     l_st_uid = 1000, l_st_gid = 1000, l_st_rdev = 0, l_st_size = 42, l_st_blksize = 4096,
     l_st_blocks = 8, l_st_atim = zero_timespec, l_st_mtim = zero_timespec,
     l_st_ctim = zero_timespec \<rparr>"

definition stale_qnx_stat :: qnx_stat where
  "stale_qnx_stat = \<lparr> st_ino = 99, st_size = 99, st_dev = 99, st_rdev = 99, st_uid = 99,
     st_gid = 99, old_st_mtime = 99, old_st_atime = 99, old_st_ctime = 99, st_mode = 99,
     st_nlink = 99, st_blocksize = 99, st_nblocks = 99, st_blksize = 99, st_blocks = 99,
     st_mtim = zero_timespec, st_atim = zero_timespec, st_ctim = zero_timespec \<rparr>"

section \<open>Time values (qtime.c)\<close>

text \<open>
  \<^verbatim>\<open>struct qnx_timeval\<close> has a \<^verbatim>\<open>long\<close> (64 bits) and an \<^verbatim>\<open>int\<close> (32 bits); the host's
  \<^verbatim>\<open>struct timeval\<close> has two 64-bit fields. The field names carry a prefix since both
  records use \<^verbatim>\<open>tv_sec\<close> and \<^verbatim>\<open>tv_usec\<close> in the source.
\<close>

record qnx_timeval =
  q_tv_sec :: "64 word"
  q_tv_usec :: "32 word"

record timeval =
  l_tv_sec :: "64 word"
  l_tv_usec :: "64 word"

text \<open>The conversion of a signed \<^verbatim>\<open>int\<close> to the host's signed 64-bit field extends the sign.\<close>

definition qnx_timeval_to_linux :: "qnx_timeval \<Rightarrow> timeval" where
  "qnx_timeval_to_linux t = \<lparr> l_tv_sec = q_tv_sec t, l_tv_usec = scast (q_tv_usec t) \<rparr>"

text \<open>
  \<^verbatim>\<open>_qnx_gettimeofday(when, not_used)\<close>. The host's \<^verbatim>\<open>gettimeofday\<close> is a parameter: from
  the content of the record it is handed it yields its return value and the content it
  leaves there. The result is the return value and the content of the caller's
  \<^verbatim>\<open>*when\<close> after the call: the source writes to the local \<^verbatim>\<open>t\<close> only.
\<close>

definition entry_qnx_gettimeofday ::
  "(timeval \<Rightarrow> 32 word \<times> timeval) \<Rightarrow> qnx_timeval \<Rightarrow> 32 word \<times> qnx_timeval" where
  "entry_qnx_gettimeofday host_gettimeofday when =
    (let t = qnx_timeval_to_linux when;
         (ret, t) = host_gettimeofday t
     in (ret, when))"

text \<open>A host clock that always succeeds and reports a fixed time.\<close>

definition clock_at :: "64 word \<Rightarrow> 64 word \<Rightarrow> timeval \<Rightarrow> 32 word \<times> timeval" where
  "clock_at s us t = (0, \<lparr> l_tv_sec = s, l_tv_usec = us \<rparr>)"

section \<open>Signal actions (signal.c)\<close>

text \<open>\<^verbatim>\<open>qnx_sigset_t\<close>: the two 32-bit words \<^verbatim>\<open>__bits[0]\<close> and \<^verbatim>\<open>__bits[1]\<close>.\<close>

record qnx_sigset_t =
  bits0 :: "32 word"
  bits1 :: "32 word"

text \<open>
  \<^verbatim>\<open>struct qnx_sigaction\<close>: the union \<^verbatim>\<open>__sa_un\<close> holds one pointer (64 bits), read and
  written through its member \<^verbatim>\<open>sa_handler\<close>.
\<close>

record qnx_sigaction =
  sa_handler :: "64 word"
  sa_flags :: "32 word"
  sa_mask :: qnx_sigset_t

text \<open>
  Modelled from the spec: the host's \<^verbatim>\<open>sigset_t\<close> and \<^verbatim>\<open>struct sigaction\<close> are declared
  in the host's \<^verbatim>\<open>signal.h\<close>, outside the shim. The specification calls a signal set ``a
  fixed-size bitset over the signal number space'' whose foreign range may differ from the
  host's. The host set is an array of 64-bit words: \<open>ss_bits0\<close> is its first word (the
  signals 1 to 64), \<open>ss_rest\<close> the remaining ones.
\<close>

record sigset_t =
  ss_bits0 :: "64 word"
  ss_rest :: "64 word list"

record linux_sigaction =
  l_sa_handler :: "64 word"
  l_sa_mask :: sigset_t
  l_sa_flags :: "32 word"
  l_sa_restorer :: "64 word"

text \<open>
  The casts \<^verbatim>\<open>*(uint64_t *)&sa_mask\<close> read and write the first eight bytes of a signal
  set as one 64-bit value. On the little-endian targets of the shim the first 32-bit word
  of the foreign set is the low half.
\<close>

definition qnx_mask_read64 :: "qnx_sigset_t \<Rightarrow> 64 word" where
  "qnx_mask_read64 m = word_cat (bits1 m) (bits0 m)"

definition qnx_mask_write64 :: "64 word \<Rightarrow> qnx_sigset_t \<Rightarrow> qnx_sigset_t" where
  "qnx_mask_write64 v m = m\<lparr> bits0 := ucast v, bits1 := ucast (drop_bit 32 v) \<rparr>"

definition qnx_sigaction_to_linux :: "qnx_sigaction \<Rightarrow> linux_sigaction \<Rightarrow> linux_sigaction" where
  "qnx_sigaction_to_linux qnx_sa linux_sa =
    (let linux_sa = linux_sa\<lparr>l_sa_handler := sa_handler qnx_sa\<rparr>;
         linux_sa = linux_sa\<lparr>l_sa_flags := sa_flags qnx_sa\<rparr>;
         linux_sa = linux_sa\<lparr>l_sa_mask :=
                      (l_sa_mask linux_sa)\<lparr>ss_bits0 := qnx_mask_read64 (sa_mask qnx_sa)\<rparr>\<rparr>
     in linux_sa)"

definition linux_sigaction_to_qnx :: "linux_sigaction \<Rightarrow> qnx_sigaction \<Rightarrow> qnx_sigaction" where
  "linux_sigaction_to_qnx linux_sa qnx_sa =
    (let qnx_sa = qnx_sa\<lparr>sa_handler := l_sa_handler linux_sa\<rparr>;
         qnx_sa = qnx_sa\<lparr>sa_flags := l_sa_flags linux_sa\<rparr>;
         qnx_sa = qnx_sa\<lparr>sa_mask :=
                    qnx_mask_write64 (ss_bits0 (l_sa_mask linux_sa)) (sa_mask qnx_sa)\<rparr>
     in qnx_sa)"

section \<open>Process creation (spawn.c)\<close>

text \<open>The constants of \<^verbatim>\<open>spawn.c\<close> that the code tests; \<^verbatim>\<open>NSIG\<close> is \<^verbatim>\<open>_SIGMAX + 1\<close>.\<close>

definition NSIG :: nat where "NSIG = 65"

definition SPAWN_SETGROUP :: "32 word" where "SPAWN_SETGROUP = 0x00000001"
definition SPAWN_SETSIGMASK :: "32 word" where "SPAWN_SETSIGMASK = 0x00000002"
definition SPAWN_SETSIGDEF :: "32 word" where "SPAWN_SETSIGDEF = 0x00000004"
definition SPAWN_SETSIGIGN :: "32 word" where "SPAWN_SETSIGIGN = 0x00000008"
definition SPAWN_SETSID :: "32 word" where "SPAWN_SETSID = 0x00000200"
definition SPAWN_SETSTACKMAX :: "32 word" where "SPAWN_SETSTACKMAX = 0x00001000"
definition SPAWN_NOZOMBIE :: "32 word" where "SPAWN_NOZOMBIE = 0x00002000"
definition SPAWN_EXEC :: "32 word" where "SPAWN_EXEC = 0x00010000"

definition P_WAIT :: "32 word" where "P_WAIT = 0"
definition P_NOWAIT :: "32 word" where "P_NOWAIT = 1"
definition P_OVERLAY :: "32 word" where "P_OVERLAY = 2"
definition P_NOWAITO :: "32 word" where "P_NOWAITO = 3"

text \<open>\<^verbatim>\<open>struct inheritance\<close>; \<^verbatim>\<open>pid_t\<close> is a 32-bit integer, the signal sets are the host's.\<close>

record inheritance =
  flags :: "32 word"
  pgroup :: "32 word"
  sigmask :: sigset_t
  sigdefault :: sigset_t
  sigignore :: sigset_t
  stack_max :: "32 word"
  policy :: "32 word"
  nd :: "32 word"
  runmask :: "32 word"
  param :: "8 word list"

text \<open>
  Modelled from the spec: \<^verbatim>\<open>sigismember\<close> belongs to the host C library, outside the
  shim. A signal set is ``a fixed-size bitset over the signal number space'': signal
  \<open>sig\<close>, from 1 to 64, is bit \<open>sig - 1\<close> of the first word; any other number is not a
  member.
\<close>

definition sigismember :: "sigset_t \<Rightarrow> nat \<Rightarrow> bool" where
  "sigismember s sig = (1 \<le> sig \<and> sig \<le> 64 \<and> bit (ss_bits0 s) (sig - 1))"

text \<open>The dispositions a signal can have: the two the code installs, or a handler address.\<close>

datatype sighandler = SIG_DFL | SIG_IGN | Handler "64 word"

text \<open>
  What \<^verbatim>\<open>spawn\<close> and \<^verbatim>\<open>spawnve\<close> do to the outside world, one constructor per host call
  of the source (and the assignment to \<^verbatim>\<open>errno\<close>), with the arguments the call is given.
\<close>

datatype event =
    Fork
  | Setpgid "32 word" "32 word"
  | Sigprocmask_setmask sigset_t
  | Setsid
  | Setrlimit_stack "32 word"
  | Signal nat sighandler
  | Dup2 "32 word" "32 word"
  | Close "32 word"
  | Execve string "string list" "string list option"
  | Waitpid "32 word" "32 word"
  | Set_errno_EINVAL

text \<open>
  How a call of \<^verbatim>\<open>spawn\<close> or \<^verbatim>\<open>spawnve\<close> ends: a \<^verbatim>\<open>return\<close> statement with a value;
  a successful \<^verbatim>\<open>execve\<close>, which never returns; or control reaching the closing brace of
  \<^verbatim>\<open>spawn\<close> after \<^verbatim>\<open>execve\<close> has failed, where the function has no \<^verbatim>\<open>return\<close> statement
  and the caller continues with an indeterminate value.
\<close>

datatype outcome = Returned "32 word" | Image_replaced | Fell_off_end

text \<open>
  The answers of the host that the code depends on or that decide the effect of its
  calls: the return value of \<^verbatim>\<open>fork\<close> (0 in the child, \<open>-1\<close> on failure), whether
  \<^verbatim>\<open>execve\<close> succeeds, for which signal numbers the host accepts a change of disposition
  (the code ignores the return value of \<^verbatim>\<open>signal\<close>), what \<^verbatim>\<open>waitpid\<close> on a process
  returns and stores as status, and the value a caller of \<^verbatim>\<open>spawn\<close> finds as its result
  when \<^verbatim>\<open>spawn\<close> has reached its closing brace without a \<^verbatim>\<open>return\<close> statement (C leaves
  that value indeterminate).
\<close>

record host =
  fork_result :: "32 word"
  execve_succeeds :: bool
  signal_settable :: "nat \<Rightarrow> bool"
  waitpid_result :: "32 word \<Rightarrow> 32 word \<times> 32 word"
  indeterminate_pid :: "32 word"

text \<open>
  One pass over the signal numbers:
  \<^verbatim>\<open>for (int i = 1; i < NSIG; i++) if (sigismember(&s, i)) signal(i, disp);\<close>
\<close>

definition signal_pass :: "sigset_t \<Rightarrow> sighandler \<Rightarrow> event list" where
  "signal_pass s disp = map (\<lambda>i. Signal i disp) (filter (sigismember s) [1..<NSIG])"

text \<open>
  The descriptor loop:
  \<^verbatim>\<open>for (int i = 0; i < fd_count; i++) if (fd_map[i] != i) { dup2(fd_map[i], i); close(fd_map[i]); }\<close>
  The caller passes a table of at least \<^verbatim>\<open>fd_count\<close> entries.
\<close>

definition keep_fd :: "int \<Rightarrow> 32 word list \<Rightarrow> event list" where
  "keep_fd fd_count fd_map =
     concat (map (\<lambda>i. if fd_map ! i \<noteq> of_nat i
                       then [Dup2 (fd_map ! i) (of_nat i), Close (fd_map ! i)] else [])
                 [0..<nat fd_count])"

text \<open>
  \<^verbatim>\<open>spawn\<close>: the host calls it makes, in order, and how it ends. A flag test
  \<^verbatim>\<open>inherit->flags & X\<close> is true when the conjunction is not zero.
\<close>

definition spawn ::
  "host \<Rightarrow> string \<Rightarrow> int \<Rightarrow> 32 word list \<Rightarrow> inheritance \<Rightarrow> string list \<Rightarrow> string list option
     \<Rightarrow> event list \<times> outcome" where
  "spawn h path fd_count fd_map inherit argv envp =
    (let (pid, forked) =
           (if flags inherit AND SPAWN_EXEC \<noteq> 0 then (0, []) else (fork_result h, [Fork]))
     in if pid \<noteq> 0 then (forked, Returned pid)
        else
          (forked
           @ (if flags inherit AND SPAWN_SETGROUP \<noteq> 0 then [Setpgid 0 (pgroup inherit)] else [])
           @ (if flags inherit AND SPAWN_SETSIGMASK \<noteq> 0
              then [Sigprocmask_setmask (sigmask inherit)] else [])
           @ (if flags inherit AND SPAWN_SETSID \<noteq> 0 then [Setsid] else [])
           @ (if flags inherit AND SPAWN_SETSTACKMAX \<noteq> 0
              then [Setrlimit_stack (stack_max inherit)] else [])
           @ (if flags inherit AND SPAWN_SETSIGDEF \<noteq> 0
              then signal_pass (sigdefault inherit) SIG_DFL else [])
           @ (if flags inherit AND SPAWN_SETSIGIGN \<noteq> 0
              then signal_pass (sigignore inherit) SIG_IGN else [])
           @ keep_fd fd_count fd_map
           @ [Execve path argv envp],
           if execve_succeeds h then Image_replaced else Fell_off_end))"

text \<open>
  \<^verbatim>\<open>spawnve\<close>. The local \<^verbatim>\<open>attr\<close> is not initialised: its prior content is the parameter
  \<open>attr\<close>, of which only \<^verbatim>\<open>flags\<close> is assigned. \<^verbatim>\<open>waitpid(pid, &pid, 0)\<close> stores the
  status in \<^verbatim>\<open>pid\<close>, which is then returned (the event records the process and the
  options argument). When \<^verbatim>\<open>execve\<close> has replaced the image,
  \<^verbatim>\<open>spawnve\<close> does not return either. When \<^verbatim>\<open>spawn\<close> has fallen off its end,
  \<^verbatim>\<open>spawnve\<close> goes on in the child with the indeterminate value in \<^verbatim>\<open>pid\<close>: the test
  against \<open>-1\<close>, the \<^verbatim>\<open>waitpid\<close> in mode \<^verbatim>\<open>P_WAIT\<close>, and \<^verbatim>\<open>return pid\<close>.
\<close>

definition spawnve ::
  "host \<Rightarrow> inheritance \<Rightarrow> 32 word \<Rightarrow> string \<Rightarrow> string list \<Rightarrow> string list option
     \<Rightarrow> event list \<times> outcome" where
  "spawnve h attr mode path argv envp =
    (if mode = P_WAIT \<or> mode = P_NOWAIT \<or> mode = P_OVERLAY \<or> mode = P_NOWAITO then
       (let attr = attr\<lparr>flags := (if mode = P_WAIT \<or> mode = P_NOWAIT then 0
                                   else if mode = P_OVERLAY then SPAWN_EXEC
                                   else SPAWN_NOZOMBIE)\<rparr>;
            (t, out) = spawn h path 0 [] attr argv envp
        in case out of
             Image_replaced \<Rightarrow> (t, Image_replaced)
           | _ \<Rightarrow>
               (let pid = (case out of Returned p \<Rightarrow> p | _ \<Rightarrow> indeterminate_pid h)
                in if pid \<noteq> - 1 \<and> mode = P_WAIT then
                     (let (r, status) = waitpid_result h pid
                      in if r = - 1 then (t @ [Waitpid pid 0], Returned (- 1))
                         else (t @ [Waitpid pid 0], Returned status))
                   else (t, Returned pid)))
     else ([Set_errno_EINVAL], Returned (- 1)))"




text \<open>Concrete inputs for the examples below.\<close>

definition empty_sigset :: sigset_t where
  "empty_sigset = \<lparr> ss_bits0 = 0, ss_rest = replicate 15 0 \<rparr>"

definition sigset_of_int :: sigset_t where
  "sigset_of_int = \<lparr> ss_bits0 = 2, ss_rest = replicate 15 0 \<rparr>"


definition plain_inheritance :: inheritance where
  "plain_inheritance = \<lparr> flags = 0, pgroup = 0, sigmask = empty_sigset,
     sigdefault = empty_sigset, sigignore = empty_sigset, stack_max = 0, policy = 0, nd = 0,
     runmask = 0, param = replicate 48 0 \<rparr>"

definition both_sets_inheritance :: inheritance where
  "both_sets_inheritance = \<lparr> flags = 12, pgroup = 0, sigmask = empty_sigset,
     sigdefault = sigset_of_int, sigignore = sigset_of_int, stack_max = 0, policy = 0, nd = 0,
     runmask = 0, param = replicate 48 0 \<rparr>"



definition child_host :: host where
  "child_host = \<lparr> fork_result = 0, execve_succeeds = False,
     signal_settable = (\<lambda>i. i \<noteq> 9 \<and> i \<noteq> 19), waitpid_result = (\<lambda>p. (p, 0)),
     indeterminate_pid = - 1 \<rparr>"

definition parent_host :: host where
  "parent_host = \<lparr> fork_result = 4711, execve_succeeds = True,
     signal_settable = (\<lambda>i. i \<noteq> 9 \<and> i \<noteq> 19), waitpid_result = (\<lambda>p. (p, 768)),
     indeterminate_pid = - 1 \<rparr>"

definition no_fork_host :: host where
  "no_fork_host = \<lparr> fork_result = - 1, execve_succeeds = True,
     signal_settable = (\<lambda>i. i \<noteq> 9 \<and> i \<noteq> 19), waitpid_result = (\<lambda>p. (- 1, 0)),
     indeterminate_pid = - 1 \<rparr>"

section \<open>Directory entries (qdir.c)\<close>

text \<open>
  \<^verbatim>\<open>_qnx_readdir\<close> rewrites the record in the buffer it was handed, so the buffer is
  modelled as what it is: the bytes from the address \<^verbatim>\<open>raw\<close> on. \<open>load\<close> reads
  \<open>n\<close> bytes at an offset, \<open>store\<close> overwrites the bytes at an offset and leaves the
  others.
\<close>

type_synonym byte = "8 word"

definition load :: "nat \<Rightarrow> nat \<Rightarrow> byte list \<Rightarrow> byte list" where
  "load off n mem = take n (drop off mem)"

definition store :: "nat \<Rightarrow> byte list \<Rightarrow> byte list \<Rightarrow> byte list" where
  "store off bs mem = take off mem @ bs @ drop (off + length bs) mem"

text \<open>Integers in memory, least significant byte first.\<close>

fun le_word :: "byte list \<Rightarrow> 'a::len word" where
  "le_word [] = 0"
| "le_word (b # bs) = ucast b OR push_bit 8 (le_word bs)"

fun le_bytes :: "nat \<Rightarrow> 'a::len word \<Rightarrow> byte list" where
  "le_bytes 0 w = []"
| "le_bytes (Suc n) w = ucast w # le_bytes n (drop_bit 8 w)"

text \<open>The C string that starts a byte sequence: the bytes before the first zero byte.\<close>

definition cstring :: "byte list \<Rightarrow> byte list" where
  "cstring bs = takeWhile (\<lambda>b. b \<noteq> 0) bs"

text \<open>
  Modelled from the spec: the host's \<^verbatim>\<open>struct dirent\<close> is declared in the host's
  \<^verbatim>\<open>dirent.h\<close>, outside the shim. The specification says that the host record and the
  foreign record share one buffer and differ in shape; the layout below is the host C
  library's on Linux: \<^verbatim>\<open>d_ino\<close> (8 bytes) at offset 0, \<^verbatim>\<open>d_off\<close> (8 bytes) at 8,
  \<^verbatim>\<open>d_reclen\<close> (2 bytes) at 16, \<^verbatim>\<open>d_type\<close> (1 byte) at 18, \<^verbatim>\<open>d_name\<close> (256 bytes) at 19,
  280 bytes in all.
\<close>

record dirent =
  d_ino :: "64 word"
  d_off :: "64 word"
  d_reclen :: "16 word"
  d_type :: "8 word"
  d_name :: "byte list"

definition sizeof_dirent :: nat where
  "sizeof_dirent = 280"

definition read_dirent :: "byte list \<Rightarrow> dirent" where
  "read_dirent mem = \<lparr> d_ino = le_word (load 0 8 mem), d_off = le_word (load 8 8 mem),
     d_reclen = le_word (load 16 2 mem), d_type = le_word (load 18 1 mem),
     d_name = load 19 256 mem \<rparr>"



text \<open>
  The body of \<^verbatim>\<open>_qnx_readdir\<close> after the null check: \<^verbatim>\<open>memcpy\<close> of
  \<^verbatim>\<open>sizeof(struct dirent)\<close> bytes into \<^verbatim>\<open>local\<close>, then the five writes through \<^verbatim>\<open>new\<close>,
  which points at the same bytes as \<^verbatim>\<open>raw\<close>. \<^verbatim>\<open>strlen\<close> is the length of the C string in
  \<^verbatim>\<open>local.d_name\<close>; \<^verbatim>\<open>strcpy\<close> writes that string and its terminating zero byte.
\<close>

definition qnx_readdir_inplace :: "byte list \<Rightarrow> byte list" where
  "qnx_readdir_inplace raw =
    (let local = read_dirent (load 0 sizeof_dirent raw);
         new = store 0 (le_bytes 8 (d_ino local)) raw;
         new = store 8 (le_bytes 8 (d_off local)) new;
         new = store 16 (le_bytes 2 (d_reclen local)) new;
         new = store 18 (le_bytes 2 (of_nat (length (cstring (d_name local))) :: 16 word)) new;
         new = store 20 (cstring (d_name local) @ [0]) new
     in new)"

text \<open>
  \<^verbatim>\<open>_qnx_readdir\<close>: the host's \<^verbatim>\<open>readdir\<close> yields a null pointer (\<open>None\<close>) or the bytes
  at the address it returns.
\<close>

definition entry_qnx_readdir :: "byte list option \<Rightarrow> byte list option" where
  "entry_qnx_readdir raw = (case raw of None \<Rightarrow> None | Some mem \<Rightarrow> Some (qnx_readdir_inplace mem))"



section \<open>Properties of the flag translation\<close>

lemmas QNX_O_defs =
  QNX_O_RDONLY_def QNX_O_WRONLY_def QNX_O_RDWR_def QNX_O_NONBLOCK_def QNX_O_APPEND_def
  QNX_O_DSYNC_def QNX_O_RSYNC_def QNX_O_SYNC_def QNX_O_CREAT_def QNX_O_TRUNC_def
  QNX_O_EXCL_def QNX_O_NOCTTY_def

lemma conv_fold_bits:
  "bit (foldl (\<lambda>acc (fb, hb). CONV_MODE f fb hb acc) a tbl) n \<longleftrightarrow>
     bit a n \<or> (\<exists>(fb, hb) \<in> set tbl. f AND fb \<noteq> 0 \<and> bit hb n)"
  by (induction tbl arbitrary: a) (auto simp: bit_or_iff CONV_MODE_def split: if_splits)

lemma translate_by_table_conv:
  "translate_by_table tbl f = foldl (\<lambda>acc (fb, hb). CONV_MODE f fb hb acc) 0 tbl"
  by (simp add: translate_by_table_def CONV_MODE_def)

lemma qnx_flag_to_linux_fold:
  "qnx_flag_to_linux h f =
     foldl (\<lambda>acc (fb, hb). CONV_MODE f fb hb acc) 0
       ((QNX_O_RDONLY, O_RDONLY h) # (QNX_O_WRONLY, O_WRONLY h) # flag_table h)"
  by (simp add: qnx_flag_to_linux_def flag_table_def)

lemma qnx_flag_to_linux_bits:
  "bit (qnx_flag_to_linux h f) n \<longleftrightarrow>
     (\<exists>(fb, hb) \<in> set (flag_table h). f AND fb \<noteq> 0 \<and> bit hb n)"
  unfolding qnx_flag_to_linux_fold conv_fold_bits
  by (auto simp: flag_table_def)

lemma known_bits_absorb:
  "(fb, hb) \<in> set (flag_table h) \<Longrightarrow> (f AND qnx_known_bits) AND fb = f AND fb"
  by (auto simp: flag_table_def and.assoc qnx_known_bits_def QNX_O_defs)

text \<open>
  C4. For every host table and every 32-bit input, \<open>qnx_flag_to_linux\<close> computes what the
  table-driven translation of the specification computes; a bit is set in the result
  exactly when it is a bit of the host flag of some table entry whose foreign flag is set
  in the input; and foreign bits without a table entry do not influence the result. The
  function is total and has no error result: it returns a plain 32-bit word.
\<close>

theorem qnx_flag_to_linux_exact:
  "qnx_flag_to_linux h f = translate_by_table (flag_table h) f
   \<and> (\<forall>n. bit (qnx_flag_to_linux h f) n \<longleftrightarrow>
         (\<exists>(fb, hb) \<in> set (flag_table h). f AND fb \<noteq> 0 \<and> bit hb n))
   \<and> qnx_flag_to_linux h (f AND qnx_known_bits) = qnx_flag_to_linux h f"
proof (intro conjI allI)
  show "qnx_flag_to_linux h f = translate_by_table (flag_table h) f"
    by (rule bit_eqI) (simp add: qnx_flag_to_linux_bits translate_by_table_conv conv_fold_bits)
  show "bit (qnx_flag_to_linux h f) n \<longleftrightarrow>
         (\<exists>(fb, hb) \<in> set (flag_table h). f AND fb \<noteq> 0 \<and> bit hb n)" for n
    by (rule qnx_flag_to_linux_bits)
  show "qnx_flag_to_linux h (f AND qnx_known_bits) = qnx_flag_to_linux h f"
  proof (rule bit_eqI)
    fix n
    show "bit (qnx_flag_to_linux h (f AND qnx_known_bits)) n = bit (qnx_flag_to_linux h f) n"
      unfolding qnx_flag_to_linux_bits
      by (rule bex_cong [OF refl]) (auto simp: known_bits_absorb)
  qed
qed

text \<open>
  On the Linux table: create plus write-only (octal 401) becomes host create plus
  write-only (65), and the unmapped foreign bit 4096 is dropped.
\<close>

theorem qnx_flag_to_linux_exact_witness:
  "qnx_flag_to_linux linux_oflags 257 = translate_by_table (flag_table linux_oflags) 257
   \<and> translate_by_table (flag_table linux_oflags) 257 = 65
   \<and> qnx_flag_to_linux linux_oflags (4353 AND qnx_known_bits) = qnx_flag_to_linux linux_oflags 4353"
  using qnx_flag_to_linux_exact [of linux_oflags 257] qnx_flag_to_linux_exact [of linux_oflags 4353]
  by (simp add: translate_by_table_def flag_table_def linux_oflags_def QNX_O_defs)

section \<open>Properties of the file-status transcoder\<close>

lemma unat_ucast_64_32: "unat (ucast (w :: 64 word) :: 32 word) = unat w mod 2 ^ 32"
  by (simp add: unsigned_ucast_eq take_bit_eq_mod)

text \<open>
  C7, as the code has it. The inode, size, owner, group and the three
  \<^verbatim>\<open>struct timespec\<close> timestamps arrive unchanged. The device and the link count arrive
  modulo \<open>2 ^ 32\<close>, the width of the foreign fields, hence unchanged when the host value
  fits in 32 bits. The fields the host record does not have (\<^verbatim>\<open>st_blocksize\<close>,
  \<^verbatim>\<open>st_nblocks\<close> and the three 32-bit legacy times) are not zeroed: they receive the low
  32 bits of the host's preferred block size, block count and seconds. No field keeps
  what the buffer held before: the result depends on the host record alone.
\<close>

theorem linux_stat_to_qnx_fields:
  "st_ino (linux_stat_to_qnx l q) = l_st_ino l
   \<and> st_size (linux_stat_to_qnx l q) = l_st_size l
   \<and> st_uid (linux_stat_to_qnx l q) = l_st_uid l
   \<and> st_gid (linux_stat_to_qnx l q) = l_st_gid l
   \<and> st_mtim (linux_stat_to_qnx l q) = l_st_mtim l
   \<and> st_atim (linux_stat_to_qnx l q) = l_st_atim l
   \<and> st_ctim (linux_stat_to_qnx l q) = l_st_ctim l
   \<and> unat (st_dev (linux_stat_to_qnx l q)) = unat (l_st_dev l) mod 2 ^ 32
   \<and> unat (st_nlink (linux_stat_to_qnx l q)) = unat (l_st_nlink l) mod 2 ^ 32
   \<and> unat (st_blocksize (linux_stat_to_qnx l q)) = unat (l_st_blksize l) mod 2 ^ 32
   \<and> unat (st_nblocks (linux_stat_to_qnx l q)) = unat (l_st_blocks l) mod 2 ^ 32
   \<and> unat (old_st_mtime (linux_stat_to_qnx l q)) = unat (tv_sec (l_st_mtim l)) mod 2 ^ 32
   \<and> unat (old_st_atime (linux_stat_to_qnx l q)) = unat (tv_sec (l_st_atim l)) mod 2 ^ 32
   \<and> unat (old_st_ctime (linux_stat_to_qnx l q)) = unat (tv_sec (l_st_ctim l)) mod 2 ^ 32
   \<and> linux_stat_to_qnx l q = linux_stat_to_qnx l q'"
  by (simp add: linux_stat_to_qnx_def unat_ucast_64_32)

text \<open>
  The sentence of the specification fails on a host record whose device number needs more than 32
  bits and whose preferred block size is 4096: the foreign device number is 5, not
  4294967301, and the foreign-only \<^verbatim>\<open>st_blocksize\<close> is 4096, not zero.
\<close>

theorem linux_stat_to_qnx_dev_counterexample:
  "unat (st_dev (linux_stat_to_qnx stat_wide_dev stale_qnx_stat)) \<noteq> unat (l_st_dev stat_wide_dev)
   \<and> st_blocksize (linux_stat_to_qnx stat_wide_dev stale_qnx_stat) \<noteq> 0"
  by (simp add: linux_stat_to_qnx_def stat_wide_dev_def)

text \<open>
  C10. Each of the four entry points returns the host call's return value, and leaves
  the caller's buffer as it was when the host call returned non-zero or the buffer
  pointer is null.
\<close>

theorem qnx_stat_family_buffer_untouched:
  "(fst (host_stat path) \<noteq> 0 \<or> buf = None \<longrightarrow>
      entry_qnx_stat host_stat path buf = (fst (host_stat path), buf))
   \<and> (fst (host_lstat path) \<noteq> 0 \<or> buf = None \<longrightarrow>
      entry_qnx_lstat host_lstat path buf = (fst (host_lstat path), buf))
   \<and> (fst (host_fstat fd) \<noteq> 0 \<or> buf = None \<longrightarrow>
      entry_qnx_fstat host_fstat fd buf = (fst (host_fstat fd), buf))
   \<and> (fst (host_fstatat fd path atflags) \<noteq> 0 \<or> buf = None \<longrightarrow>
      entry_qnx_fstatat host_fstatat fd path buf atflags = (fst (host_fstatat fd path atflags), buf))"
  by (auto simp: entry_qnx_stat_def entry_qnx_lstat_def entry_qnx_fstat_def
      entry_qnx_fstatat_def split: prod.splits)

text \<open>
  A failing host call (return value \<open>-1\<close>) leaves a stale buffer stale, for each entry
  point.
\<close>

theorem qnx_stat_family_buffer_untouched_witness:
  "entry_qnx_stat (\<lambda>p. (- 1, stat_wide_dev)) ''/nonexistent'' (Some stale_qnx_stat)
     = (- 1, Some stale_qnx_stat)
   \<and> entry_qnx_lstat (\<lambda>p. (- 1, stat_wide_dev)) ''/nonexistent'' (Some stale_qnx_stat)
     = (- 1, Some stale_qnx_stat)
   \<and> entry_qnx_fstat (\<lambda>d. (- 1, stat_wide_dev)) 3 (Some stale_qnx_stat)
     = (- 1, Some stale_qnx_stat)
   \<and> entry_qnx_fstatat (\<lambda>d p f. (- 1, stat_wide_dev)) 3 ''/nonexistent'' (Some stale_qnx_stat) 0
     = (- 1, Some stale_qnx_stat)"
  using qnx_stat_family_buffer_untouched [of "\<lambda>p. (- 1, stat_wide_dev)" "''/nonexistent''"
      "Some stale_qnx_stat" "\<lambda>p. (- 1, stat_wide_dev)" "\<lambda>d. (- 1, stat_wide_dev)" 3
      "\<lambda>d p f. (- 1, stat_wide_dev)" 0]
  by simp

section \<open>Properties of the time entry point\<close>

text \<open>
  C6, at a concrete input. The host clock succeeds and reports 1700000000 seconds and
  123456 microseconds; the caller's record held zeros before the call and holds zeros
  after it: \<^verbatim>\<open>_qnx_gettimeofday\<close> hands the host a local copy and never writes the
  caller's record.
\<close>

theorem qnx_gettimeofday_leaves_record:
  "entry_qnx_gettimeofday (clock_at 1700000000 123456) \<lparr> q_tv_sec = 0, q_tv_usec = 0 \<rparr>
     = (0, \<lparr> q_tv_sec = 0, q_tv_usec = 0 \<rparr>)"
  by (simp add: entry_qnx_gettimeofday_def clock_at_def)

lemma entry_qnx_gettimeofday_unchanged:
  "snd (entry_qnx_gettimeofday host_gettimeofday w) = w"
  by (simp add: entry_qnx_gettimeofday_def split: prod.splits)

section \<open>Properties of the signal-action transcoders\<close>

lemma word_cat_low_half: "ucast (word_cat (a :: 32 word) (b :: 32 word) :: 64 word) = b"
  by (rule bit_word_eqI) (auto simp: bit_simps)

lemma word_cat_high_half:
  "ucast (drop_bit 32 (word_cat (a :: 32 word) (b :: 32 word) :: 64 word)) = a"
  by (rule bit_word_eqI) (auto simp: bit_simps)

lemma qnx_mask_read64_bit:
  "bit (qnx_mask_read64 m) n \<longleftrightarrow>
     (if n < 32 then bit (bits0 m) n else n < 64 \<and> bit (bits1 m) (n - 32))"
  by (auto simp: qnx_mask_read64_def bit_simps)

text \<open>
  C8. Foreign to host and back gives the foreign record that went in, whatever the two
  destination records held before: handler, flags and both words of the mask. On the way
  the first 64 bits of the host set are the 64 bits of the foreign set, bit for bit, and
  the rest of the host set is not touched.
\<close>

theorem sigaction_roundtrip:
  "linux_sigaction_to_qnx (qnx_sigaction_to_linux q l0) q0 = q
   \<and> l_sa_handler (qnx_sigaction_to_linux q l0) = sa_handler q
   \<and> l_sa_flags (qnx_sigaction_to_linux q l0) = sa_flags q
   \<and> (\<forall>n. bit (ss_bits0 (l_sa_mask (qnx_sigaction_to_linux q l0))) n \<longleftrightarrow>
         (if n < 32 then bit (bits0 (sa_mask q)) n else n < 64 \<and> bit (bits1 (sa_mask q)) (n - 32)))
   \<and> ss_rest (l_sa_mask (qnx_sigaction_to_linux q l0)) = ss_rest (l_sa_mask l0)"
  by (simp add: linux_sigaction_to_qnx_def qnx_sigaction_to_linux_def qnx_mask_write64_def
      qnx_mask_read64_bit word_cat_low_half word_cat_high_half)
    (simp add: qnx_mask_read64_def word_cat_low_half word_cat_high_half)

section \<open>Properties of the spawn state machine\<close>













text \<open>
  C2, at a concrete input. In the child (\<^verbatim>\<open>fork\<close> returned 0), with no inheritance flag
  set and an \<^verbatim>\<open>execve\<close> that fails, \<^verbatim>\<open>spawn\<close> calls \<^verbatim>\<open>fork\<close> and \<^verbatim>\<open>execve\<close> and then
  reaches its closing brace: there is no call that ends the process, and control goes
  back to the caller.
\<close>

theorem spawn_exec_failure_falls_through:
  "spawn child_host ''/nonexistent'' 0 [] plain_inheritance [''prog''] None
     = ([Fork, Execve ''/nonexistent'' [''prog''] None], Fell_off_end)"
  by (simp add: spawn_def child_host_def plain_inheritance_def keep_fd_def)

text \<open>
  In the same situation \<^verbatim>\<open>spawnve\<close> goes on in the child after \<^verbatim>\<open>spawn\<close> and returns
  whatever it finds in \<^verbatim>\<open>pid\<close>.
\<close>

lemma spawnve_continues_in_child:
  "spawnve child_host plain_inheritance P_NOWAIT ''/nonexistent'' [''prog''] None
     = ([Fork, Execve ''/nonexistent'' [''prog''] None], Returned (- 1))"
  by (simp add: spawnve_def spawn_def child_host_def keep_fd_def P_NOWAIT_def P_WAIT_def)

lemma spawn_exec_failure_general:
  "flags inh AND SPAWN_EXEC \<noteq> 0 \<or> fork_result h = 0 \<Longrightarrow> \<not> execve_succeeds h \<Longrightarrow>
     snd (spawn h path c m inh argv envp) = Fell_off_end"
  by (auto simp: spawn_def)

text \<open>
  C3. Without the exec-in-place flag, when \<^verbatim>\<open>fork\<close> returns \<open>-1\<close>, \<^verbatim>\<open>spawn\<close> returns
  \<open>-1\<close> and \<^verbatim>\<open>fork\<close> is the only host call it has made: no process group, signal mask,
  session, stack limit, disposition, descriptor or image call.
\<close>

theorem spawn_fork_failure:
  "flags inh AND SPAWN_EXEC = 0 \<Longrightarrow> fork_result h = - 1 \<Longrightarrow>
     spawn h path c m inh argv envp = ([Fork], Returned (- 1))"
  by (simp add: spawn_def)

text \<open>
  With every inheritance flag but exec-in-place set, a descriptor table and a failing
  \<^verbatim>\<open>fork\<close>, the only call is still \<^verbatim>\<open>fork\<close>.
\<close>

theorem spawn_fork_failure_witness:
  "spawn no_fork_host ''/bin/true'' 2 [5, 6] (both_sets_inheritance\<lparr>flags := 0x120F\<rparr>)
     [''true''] None = ([Fork], Returned (- 1))"
proof -
  have a: "flags (both_sets_inheritance\<lparr>flags := 0x120F\<rparr>) AND SPAWN_EXEC = 0"
    by (simp add: SPAWN_EXEC_def)
  have b: "fork_result no_fork_host = - 1"
    by (simp add: no_fork_host_def)
  show ?thesis
    using spawn_fork_failure [OF a b] by simp
qed

text \<open>
  C5. In mode \<^verbatim>\<open>P_WAIT\<close>, in the calling process (\<^verbatim>\<open>fork\<close> returned the identifier of
  the new process, neither 0 nor \<open>-1\<close>), \<^verbatim>\<open>spawnve\<close> calls \<^verbatim>\<open>fork\<close> and then
  \<^verbatim>\<open>waitpid\<close> on that identifier with the options argument 0, the blocking form;
  when \<^verbatim>\<open>waitpid\<close> succeeds, the status it stored is the return value, unchanged.
\<close>

theorem spawnve_wait_returns_status:
  "fork_result h \<noteq> 0 \<Longrightarrow> fork_result h \<noteq> - 1 \<Longrightarrow>
   waitpid_result h (fork_result h) = (r, status) \<Longrightarrow> r \<noteq> - 1 \<Longrightarrow>
     spawnve h attr P_WAIT path argv envp = ([Fork, Waitpid (fork_result h) 0], Returned status)"
  by (simp add: spawnve_def spawn_def P_WAIT_def)

text \<open>The new process is 4711 and the host reports the status 768 for it.\<close>

theorem spawnve_wait_returns_status_witness:
  "spawnve parent_host plain_inheritance P_WAIT ''/bin/true'' [''true''] None
     = ([Fork, Waitpid 4711 0], Returned 768)"
proof -
  have a: "fork_result parent_host \<noteq> 0"
    by (simp add: parent_host_def)
  have b: "fork_result parent_host \<noteq> - 1"
    by (simp add: parent_host_def)
  have c: "waitpid_result parent_host (fork_result parent_host) = (4711, 768)"
    by (simp add: parent_host_def)
  have d: "(4711 :: 32 word) \<noteq> - 1"
    by simp
  show ?thesis
    using spawnve_wait_returns_status [OF a b c d] by (simp add: parent_host_def)
qed

section \<open>Properties of the directory-entry transcoder\<close>








lemma load_store_after:
  "off' + length bs \<le> off \<Longrightarrow> off' + length bs \<le> length mem \<Longrightarrow>
     load off n (store off' bs mem) = load off n mem"
  by (simp add: load_def store_def)










end
